theory Spec2Isabelle
  imports Complex_Main
begin

section \<open>The circle-follow behaviour of week2/custom\_behavior\_methods.py\<close>

text \<open>
  The module holds two functions: \<open>CircleFollow\<close>, the control law, and
  \<open>beh_diff_circle_follow\<close>, the registered callback that reads the robot object
  and the keyword arguments and calls the law.

  Numbers: the source computes on numpy float64 values. They are modelled as real
  numbers, so \<open>0.1\<close> is the real \<open>1/10\<close>, \<open>np.pi\<close> is \<open>pi\<close>, and rounding,
  overflow, infinities and NaN are outside the model.

  Arrays: a 2-D numpy array is the list of its rows, a 1-D array a list, a 0-d array
  a single number. Every place where numpy or Python raises (unpacking, broadcasting,
  indexing) is a branch returning \<open>Inl\<close>.
\<close>

subsection \<open>Data\<close>

datatype py_error = ValueError | IndexError

text \<open>A value passed in \<open>**kwargs\<close>: a float or a list of floats.\<close>

datatype pyval = PyFloat real | PyList "real list"

text \<open>What \<open>np.array\<close> makes of such a value: a 0-d array or a 1-D array.\<close>

datatype ndarray = Scalar real | Vector "real list"

type_synonym ndarray2 = "real list list"

fun np_array :: "pyval \<Rightarrow> ndarray" where
  "np_array (PyFloat c) = Scalar c"
| "np_array (PyList cs) = Vector cs"

text \<open>
  The robot object, as far as the callback reads it: \<open>ego_object.state\<close> and the
  pair (minimum, maximum) returned by \<open>ego_object.get_vel_range()\<close>. Whatever else
  the object carries is the record's extension.
\<close>

record ego_object =
  state :: ndarray2
  get_vel_range :: "ndarray2 \<times> ndarray2"

subsection \<open>numpy primitives\<close>

text \<open>\<open>a.flatten()\<close> of a 2-D array: its rows, one after the other.\<close>

definition flatten :: "ndarray2 \<Rightarrow> real list" where
  "flatten a = concat a"

text \<open>\<open>x, y, theta = ...\<close>: unpacking raises ValueError unless there are exactly three values.\<close>

fun unpack3 :: "real list \<Rightarrow> py_error + (real \<times> real \<times> real)" where
  "unpack3 [x, y, theta] = Inr (x, y, theta)"
| "unpack3 _ = Inl ValueError"

text \<open>
  \<open>center - np.array([x, y])\<close>: a 0-d array and a 1-D array of one element are
  broadcast over both components, a 1-D array of two elements is subtracted
  componentwise, and any other length raises ValueError (shapes do not broadcast).
\<close>

fun sub_xy :: "ndarray \<Rightarrow> real \<Rightarrow> real \<Rightarrow> py_error + (real \<times> real)" where
  "sub_xy (Scalar c) x y = Inr (c - x, c - y)"
| "sub_xy (Vector [c]) x y = Inr (c - x, c - y)"
| "sub_xy (Vector [cx, cy]) x y = Inr (cx - x, cy - y)"
| "sub_xy (Vector _) x y = Inl ValueError"

text \<open>\<open>np.linalg.norm\<close> of a vector of two components.\<close>

definition linalg_norm :: "real \<times> real \<Rightarrow> real" where
  "linalg_norm v = sqrt ((fst v)\<^sup>2 + (snd v)\<^sup>2)"

text \<open>
  \<open>np.arctan2(y, x)\<close> on real numbers: the angle of the point \<open>(x, y)\<close> in
  \<open>(-pi, pi]\<close>, by quadrant, with \<open>arctan2(0, 0) = 0\<close> as numpy returns for
  positive zeros.
\<close>

definition arctan2 :: "real \<Rightarrow> real \<Rightarrow> real" where
  "arctan2 y x =
     (if 0 < x then arctan (y / x)
      else if x < 0 then (if 0 \<le> y then arctan (y / x) + pi else arctan (y / x) - pi)
      else if 0 < y then pi / 2
      else if y < 0 then - (pi / 2)
      else 0)"

text \<open>\<open>a[i, j]\<close> for non-negative \<open>i\<close>, \<open>j\<close>: IndexError outside the array.\<close>

definition idx2 :: "ndarray2 \<Rightarrow> nat \<Rightarrow> nat \<Rightarrow> py_error + real" where
  "idx2 a i j =
     (if i < length a \<and> j < length (a ! i) then Inr (a ! i ! j) else Inl IndexError)"

subsection \<open>The control law\<close>

text \<open>
  \<open>CircleFollow(state, max_vel, center, radius)\<close>, statement by statement.
  \<open>WrapToPi\<close> is imported from the simulation library \<open>irsim.util.util\<close>, which is
  not part of this repository: it is the first parameter of the model.
  The local \<open>distance\<close> is computed and never read, and \<open>radius\<close> is never read.
\<close>

definition CircleFollow ::
  "(real \<Rightarrow> real) \<Rightarrow> ndarray2 \<Rightarrow> ndarray2 \<Rightarrow> ndarray \<Rightarrow> pyval \<Rightarrow> py_error + ndarray2" where
  "CircleFollow WrapToPi st max_vel center radius =
     (case unpack3 (flatten st) of
        Inl e \<Rightarrow> Inl e
      | Inr (x, y, theta) \<Rightarrow>
          (case sub_xy center x y of
             Inl e \<Rightarrow> Inl e
           | Inr vec_to_center \<Rightarrow>
               (let distance = linalg_norm vec_to_center;
                    angle_to_center = arctan2 (snd vec_to_center) (fst vec_to_center);
                    tangential_angle = angle_to_center + pi / 2;
                    angle_diff = WrapToPi (tangential_angle - theta)
                in case idx2 max_vel 0 0 of
                     Inl e \<Rightarrow> Inl e
                   | Inr v \<Rightarrow>
                       (let linear_speed = max (1 / 10) (v * (1 / 2))
                        in case idx2 max_vel 1 0 of
                             Inl e \<Rightarrow> Inl e
                           | Inr w \<Rightarrow>
                               (let angular_speed = w * tanh (2 * angle_diff)
                                in Inr [[linear_speed], [angular_speed]])))))"

subsection \<open>The registered callback\<close>

text \<open>
  \<open>beh_diff_circle_follow(ego_object, external_objects=None, **kwargs)\<close>.
  \<open>external_objects\<close> is an optional list of objects of any type; \<open>kwargs\<close> is a
  dictionary from names to values, read with \<open>kwargs.get(key, default)\<close>.
\<close>

definition kwargs_get :: "(string \<rightharpoonup> pyval) \<Rightarrow> string \<Rightarrow> pyval \<Rightarrow> pyval" where
  "kwargs_get kwargs k d = (case kwargs k of None \<Rightarrow> d | Some v \<Rightarrow> v)"

definition beh_diff_circle_follow ::
  "(real \<Rightarrow> real) \<Rightarrow> 'e ego_object_scheme \<Rightarrow> 'o list option \<Rightarrow> (string \<rightharpoonup> pyval)
     \<Rightarrow> py_error + ndarray2" where
  "beh_diff_circle_follow WrapToPi ego external_objects kwargs =
     (let external_objects = (case external_objects of None \<Rightarrow> [] | Some os \<Rightarrow> os);
          st = state ego;
          max_vel = snd (get_vel_range ego);
          CENTER = np_array (kwargs_get kwargs ''center'' (PyList [5, 5]));
          RADIUS = kwargs_get kwargs ''radius'' (PyFloat 2)
      in CircleFollow WrapToPi st max_vel CENTER RADIUS)"

section \<open>Properties\<close>

subsection \<open>What the law returns\<close>

text \<open>
  On a pose of three numbers, a center the subtraction accepts and a velocity limit
  with entries at \<open>[0, 0]\<close> and \<open>[1, 0]\<close>, the law returns the 2x1 array of the
  linear and the angular speed.
\<close>

lemma CircleFollow_returns:
  assumes "flatten st = [x, y, theta]"
    and "sub_xy center x y = Inr (dx, dy)"
    and "idx2 max_vel 0 0 = Inr v"
    and "idx2 max_vel 1 0 = Inr w"
  shows "CircleFollow W st max_vel center radius =
           Inr [[max (1 / 10) (v * (1 / 2))],
                [w * tanh (2 * W (arctan2 dy dx + pi / 2 - theta))]]"
  using assms by (simp add: CircleFollow_def Let_def)

lemma idx2_column:
  "idx2 [[v], [w]] 0 0 = Inr v" "idx2 [[v], [w]] 1 0 = Inr w"
  by (simp_all add: idx2_def)

lemma CircleFollow_2vector:
  assumes "flatten st = [x, y, theta]"
  shows "CircleFollow W st [[v], [w]] (Vector [cx, cy]) radius =
           Inr [[max (1 / 10) (v * (1 / 2))],
                [w * tanh (2 * W (arctan2 (cy - y) (cx - x) + pi / 2 - theta))]]"
  by (rule CircleFollow_returns [OF assms _ idx2_column]) simp

lemma tanh_scaled_bound:
  fixes w t :: real
  assumes "0 \<le> w"
  shows "\<bar>w * tanh t\<bar> \<le> w"
proof -
  have "\<bar>tanh t\<bar> \<le> 1"
    using tanh_real_lt_1 [of t] tanh_real_gt_neg1 [of t] by simp
  then have "w * \<bar>tanh t\<bar> \<le> w * 1"
    using assms by (rule mult_left_mono)
  then show ?thesis
    using assms by (simp add: abs_mult)
qed

lemma tanh_scaled_sgn:
  fixes w d :: real
  assumes "0 < w"
  shows "sgn (w * tanh (2 * d)) = sgn d"
proof -
  have "sgn (tanh (2 * d)) = sgn d"
    by (cases "d < 0"; cases "d = 0") (simp_all add: sgn_if)
  then show ?thesis
    using assms by (simp add: sgn_mult)
qed

text \<open>
  The direction of \<open>np.arctan2(dy, dx)\<close>: its cosine and sine are the components of
  the unit vector along \<open>(dx, dy)\<close>.
\<close>

lemma sqrt_one_plus_sq:
  fixes dx dy :: real
  assumes "dx \<noteq> 0"
  shows "sqrt (1 + (dy / dx)\<^sup>2) = sqrt (dx\<^sup>2 + dy\<^sup>2) / \<bar>dx\<bar>"
proof -
  have "1 + (dy / dx)\<^sup>2 = (dx\<^sup>2 + dy\<^sup>2) / dx\<^sup>2"
    using assms by (simp add: field_simps power2_eq_square)
  then show ?thesis
    by (simp add: real_sqrt_divide)
qed

lemma arctan2_cos_sin:
  fixes dx dy :: real
  assumes "(dx, dy) \<noteq> (0, 0)"
  shows "cos (arctan2 dy dx) = dx / sqrt (dx\<^sup>2 + dy\<^sup>2)"
    and "sin (arctan2 dy dx) = dy / sqrt (dx\<^sup>2 + dy\<^sup>2)"
proof -
  consider "0 < dx" | "dx < 0" | "dx = 0" "0 < dy" | "dx = 0" "dy < 0"
    using assms by force
  then have "cos (arctan2 dy dx) = dx / sqrt (dx\<^sup>2 + dy\<^sup>2)
             \<and> sin (arctan2 dy dx) = dy / sqrt (dx\<^sup>2 + dy\<^sup>2)"
  proof cases
    case 1
    then show ?thesis
      by (simp add: arctan2_def cos_arctan sin_arctan sqrt_one_plus_sq)
  next
    case 2
    then show ?thesis
      by (simp add: arctan2_def cos_arctan sin_arctan sqrt_one_plus_sq)
  next
    case 3
    then show ?thesis
      by (simp add: arctan2_def)
  next
    case 4
    then show ?thesis
      by (simp add: arctan2_def)
  qed
  then show "cos (arctan2 dy dx) = dx / sqrt (dx\<^sup>2 + dy\<^sup>2)"
    and "sin (arctan2 dy dx) = dy / sqrt (dx\<^sup>2 + dy\<^sup>2)"
    by simp_all
qed

text \<open>
  The heading \<open>t = arctan2(dy, dx) + pi / 2\<close> is perpendicular to \<open>(dx, dy)\<close>, and
  \<open>(dx, dy)\<close> lies to its left: the cross product of \<open>(dx, dy)\<close> with the heading is
  the length of \<open>(dx, dy)\<close>.
\<close>

lemma tangent_direction:
  fixes dx dy :: real
  assumes "(dx, dy) \<noteq> (0, 0)" and "t = arctan2 dy dx + pi / 2"
  shows "dx * cos t + dy * sin t = 0"
    and "dx * sin t - dy * cos t = sqrt (dx\<^sup>2 + dy\<^sup>2)"
proof -
  have c: "cos t = - sin (arctan2 dy dx)" and s: "sin t = cos (arctan2 dy dx)"
    unfolding assms(2) by (simp_all add: cos_add sin_add)
  show "dx * cos t + dy * sin t = 0"
    unfolding c s arctan2_cos_sin [OF assms(1)] by simp
  have "dx * sin t - dy * cos t = (dx\<^sup>2 + dy\<^sup>2) / sqrt (dx\<^sup>2 + dy\<^sup>2)"
    unfolding c s arctan2_cos_sin [OF assms(1)]
    by (simp add: power2_eq_square add_divide_distrib)
  also have "\<dots> = sqrt (dx\<^sup>2 + dy\<^sup>2)"
    by (simp add: real_div_sqrt)
  finally show "dx * sin t - dy * cos t = sqrt (dx\<^sup>2 + dy\<^sup>2)" .
qed

subsection \<open>The radius\<close>

text \<open>
  C1. The claim: the commanded velocity depends on the radius argument. The law never
  reads \<open>radius\<close>: two calls that differ only in the radius return the same result,
  for every pose, velocity limit and center.
\<close>

theorem CircleFollow_ignores_radius:
  "CircleFollow W st max_vel center radius = CircleFollow W st max_vel center radius'"
  by (simp add: CircleFollow_def)

subsection \<open>The linear speed\<close>

text \<open>
  C2. The claim: the commanded linear speed is one half of \<open>max_vel[0, 0]\<close>.
  It fails for a maximum linear velocity of 0, where the command is 0.1.
\<close>

theorem CircleFollow_half_speed_counterexample:
  "CircleFollow (\<lambda>a. a) [[0], [0], [0]] [[0], [0]] (Vector [5, 5]) (PyFloat 2)
     = Inr [[1 / 10], [0]] \<and> (1 / 10 :: real) \<noteq> 0 * (1 / 2)"
  by (simp add: CircleFollow_def flatten_def idx2_def)

text \<open>
  C2, amended. The commanded linear speed is \<open>max(0.1, 0.5 * max_vel[0, 0])\<close>: it is
  one half of the maximum linear velocity exactly when that maximum is at least 0.2.
\<close>

theorem CircleFollow_linear_speed:
  assumes "flatten st = [x, y, theta]"
  shows "\<exists>l a. CircleFollow W st [[v], [w]] (Vector [cx, cy]) radius = Inr [[l], [a]]
           \<and> l = max (1 / 10) (v * (1 / 2))
           \<and> (l = v * (1 / 2) \<longleftrightarrow> 1 / 5 \<le> v)"
  unfolding CircleFollow_2vector [OF assms] by (auto simp: max_def)

theorem CircleFollow_linear_speed_witness:
  "\<exists>l a. CircleFollow (\<lambda>a. a) [[0], [0], [0]] [[1], [1]] (Vector [5, 5]) (PyFloat 2)
             = Inr [[l], [a]]
           \<and> l = max (1 / 10) (1 * (1 / 2))
           \<and> (l = 1 * (1 / 2) \<longleftrightarrow> 1 / 5 \<le> (1 :: real))"
  using CircleFollow_linear_speed
    [of "[[0], [0], [0]]" 0 0 0 "\<lambda>a. a" 1 1 5 5 "PyFloat 2"]
  by (simp add: flatten_def)

text \<open>
  C8. The commanded linear speed is at least 0.1. When the maximum linear velocity is
  below 0.2 the command is 0.1, and when it is below 0.1 (zero included) the command
  exceeds that maximum.
\<close>

theorem CircleFollow_speed_floor:
  assumes "flatten st = [x, y, theta]"
  shows "\<exists>l a. CircleFollow W st [[v], [w]] (Vector [cx, cy]) radius = Inr [[l], [a]]
           \<and> 1 / 10 \<le> l
           \<and> (v < 1 / 5 \<longrightarrow> l = 1 / 10)
           \<and> (v < 1 / 10 \<longrightarrow> v < l)"
  unfolding CircleFollow_2vector [OF assms] by (auto simp: max_def)

theorem CircleFollow_speed_floor_witness:
  "\<exists>l a. CircleFollow (\<lambda>a. a) [[0], [0], [0]] [[0], [1]] (Vector [5, 5]) (PyFloat 2)
             = Inr [[l], [a]]
           \<and> 1 / 10 \<le> l \<and> l = 1 / 10 \<and> (0 :: real) < l"
  using CircleFollow_speed_floor
    [of "[[0], [0], [0]]" 0 0 0 "\<lambda>a. a" 0 1 5 5 "PyFloat 2"]
  by (simp add: flatten_def)

subsection \<open>The angular speed\<close>

text \<open>
  C3. With a non-negative maximum angular velocity \<open>max_vel[1, 0]\<close>, the magnitude of
  the commanded angular speed is at most that maximum.
\<close>

theorem CircleFollow_angular_bounded:
  assumes "flatten st = [x, y, theta]" and "0 \<le> w"
  shows "\<exists>l a. CircleFollow W st [[v], [w]] (Vector [cx, cy]) radius = Inr [[l], [a]]
           \<and> \<bar>a\<bar> \<le> w"
  unfolding CircleFollow_2vector [OF assms(1)]
  using tanh_scaled_bound [OF assms(2)] by simp

theorem CircleFollow_angular_bounded_witness:
  "\<exists>l a. CircleFollow (\<lambda>a. a) [[0], [0], [0]] [[1], [3]] (Vector [5, 5]) (PyFloat 2)
             = Inr [[l], [a]]
           \<and> \<bar>a\<bar> \<le> 3"
  using CircleFollow_angular_bounded
    [of "[[0], [0], [0]]" 0 0 0 3 "\<lambda>a. a" 1 5 5 "PyFloat 2"]
  by (simp add: flatten_def)

text \<open>
  C4. The claim: the law steers the heading toward the counter-clockwise tangent of the
  circle, the direction \<open>arctan2(to center) + pi / 2\<close>. The source comment calls this
  direction \<open>(CCW)\<close>, but it is the clockwise one. For a pose away from the center,
  with \<open>t\<close> the tangential angle the law computes:
  the heading \<open>t\<close> is perpendicular to the radius from the center to the robot;
  the cross product of that radius with the heading \<open>t\<close> is negative, so a robot
  moving along \<open>t\<close> circles the center clockwise;
  with a positive maximum angular velocity the commanded angular speed has the sign of
  the wrapped difference \<open>t - theta\<close>, so the law turns the robot toward \<open>t\<close>;
  and a robot already heading along \<open>t\<close> gets angular speed 0 whenever the wrap
  leaves 0 unchanged.
\<close>

theorem CircleFollow_target_is_clockwise:
  assumes "flatten st = [x, y, theta]" and "(x, y) \<noteq> (cx, cy)"
    and "t = arctan2 (cy - y) (cx - x) + pi / 2"
  shows "CircleFollow W st [[v], [w]] (Vector [cx, cy]) radius
           = Inr [[max (1 / 10) (v * (1 / 2))], [w * tanh (2 * W (t - theta))]]
         \<and> (x - cx) * cos t + (y - cy) * sin t = 0
         \<and> (x - cx) * sin t - (y - cy) * cos t < 0
         \<and> (0 < w \<longrightarrow> sgn (w * tanh (2 * W (t - theta))) = sgn (W (t - theta)))
         \<and> (theta = t \<longrightarrow> W 0 = 0 \<longrightarrow> w * tanh (2 * W (t - theta)) = 0)"
proof -
  let ?dx = "cx - x" and ?dy = "cy - y"
  have away: "(?dx, ?dy) \<noteq> (0, 0)"
    using assms(2) by auto
  have "CircleFollow W st [[v], [w]] (Vector [cx, cy]) radius
          = Inr [[max (1 / 10) (v * (1 / 2))], [w * tanh (2 * W (t - theta))]]"
    unfolding assms(3) by (rule CircleFollow_2vector [OF assms(1)])
  moreover have "(x - cx) * cos t + (y - cy) * sin t = 0"
    using tangent_direction(1) [OF away assms(3)] by (simp add: algebra_simps)
  moreover have "(x - cx) * sin t - (y - cy) * cos t < 0"
  proof -
    have "0 < sqrt (?dx\<^sup>2 + ?dy\<^sup>2)"
      using away by (auto simp: sum_power2_gt_zero_iff)
    then have "0 < ?dx * sin t - ?dy * cos t"
      using tangent_direction(2) [OF away assms(3)] by simp
    then show ?thesis
      by (simp add: algebra_simps)
  qed
  moreover have "0 < w \<longrightarrow> sgn (w * tanh (2 * W (t - theta))) = sgn (W (t - theta))"
    using tanh_scaled_sgn by blast
  moreover have "theta = t \<longrightarrow> W 0 = 0 \<longrightarrow> w * tanh (2 * W (t - theta)) = 0"
    by simp
  ultimately show ?thesis
    by blast
qed

text \<open>
  At the robot north of the center \<open>(5, 5)\<close> and heading east, which is clockwise
  travel, the law commands no turn.
\<close>

theorem CircleFollow_target_is_clockwise_witness:
  "CircleFollow (\<lambda>a. a) [[5], [7], [0]] [[1], [1]] (Vector [5, 5]) (PyFloat 2)
     = Inr [[1 / 2], [0]]
   \<and> (5 - 5) * cos 0 + (7 - 5) * sin 0 = (0 :: real)
   \<and> (5 - 5) * sin 0 - (7 - 5) * cos 0 < (0 :: real)"
proof -
  have t: "(0 :: real) = arctan2 (5 - 7) (5 - 5) + pi / 2"
    by (simp add: arctan2_def)
  show ?thesis
    using CircleFollow_target_is_clockwise
      [of "[[5], [7], [0]]" 5 7 0 5 5 0 "\<lambda>a. a" 1 1 "PyFloat 2", OF _ _ t]
    by (simp add: flatten_def)
qed

subsection \<open>The shape of the result\<close>

text \<open>
  C7. For a pose of three numbers and a velocity limit of two components, the behaviour
  returns a 2x1 array \<open>[[linear_speed], [angular_speed]]\<close>: the law does for a center
  of two coordinates, and the callback does when \<open>center\<close> is left to its default or
  given as a list of two coordinates.
\<close>

theorem behaviour_returns_2x1:
  assumes "flatten (state ego) = [x, y, theta]"
    and "snd (get_vel_range ego) = [[v], [w]]"
    and "kwargs ''center'' = None \<or> kwargs ''center'' = Some (PyList [cx, cy])"
  shows "(\<exists>l a. CircleFollow W (state ego) [[v], [w]] (Vector [cx, cy]) radius
                   = Inr [[l], [a]])
         \<and> (\<exists>l a. beh_diff_circle_follow W ego external_objects kwargs = Inr [[l], [a]])"
proof
  show "\<exists>l a. CircleFollow W (state ego) [[v], [w]] (Vector [cx, cy]) radius
                = Inr [[l], [a]]"
    unfolding CircleFollow_2vector [OF assms(1)] by simp
next
  from assms(3) show "\<exists>l a. beh_diff_circle_follow W ego external_objects kwargs
                           = Inr [[l], [a]]"
  proof
    assume "kwargs ''center'' = None"
    then show ?thesis
      by (simp add: beh_diff_circle_follow_def Let_def kwargs_get_def assms(2)
          CircleFollow_2vector [OF assms(1)])
  next
    assume "kwargs ''center'' = Some (PyList [cx, cy])"
    then show ?thesis
      by (simp add: beh_diff_circle_follow_def Let_def kwargs_get_def assms(2)
          CircleFollow_2vector [OF assms(1)])
  qed
qed

theorem behaviour_returns_2x1_witness:
  "(\<exists>l a. CircleFollow (\<lambda>a. a) [[1], [2], [0]] [[1], [1]] (Vector [5, 5]) (PyFloat 2)
             = Inr [[l], [a]])
   \<and> (\<exists>l a. beh_diff_circle_follow (\<lambda>a. a)
                \<lparr>state = [[1], [2], [0]], get_vel_range = ([[-1], [-1]], [[1], [1]])\<rparr>
                (None :: unit list option) Map.empty
             = Inr [[l], [a]])"
  using behaviour_returns_2x1
    [of "\<lparr>state = [[1], [2], [0]], get_vel_range = ([[-1], [-1]], [[1], [1]])\<rparr>"
        1 2 0 1 1 Map.empty 5 5 "\<lambda>a. a" "PyFloat 2" "None :: unit list option"]
  by (simp add: flatten_def)

subsection \<open>The singular pose\<close>

text \<open>
  C9. When the robot stands on the center, the vector to the center is zero, its norm
  is zero, \<open>arctan2(0, 0)\<close> is 0, so the tangential angle is \<open>pi / 2\<close>, and the law
  returns a command: no branch of it fails there.
\<close>

theorem CircleFollow_at_center:
  assumes "flatten st = [cx, cy, theta]"
  shows "sub_xy (Vector [cx, cy]) cx cy = Inr (0, 0)
         \<and> linalg_norm (0, 0) = 0
         \<and> arctan2 0 0 = 0
         \<and> CircleFollow W st [[v], [w]] (Vector [cx, cy]) radius
             = Inr [[max (1 / 10) (v * (1 / 2))], [w * tanh (2 * W (pi / 2 - theta))]]"
  using CircleFollow_2vector [OF assms, of W v w cx cy radius]
  by (simp add: linalg_norm_def arctan2_def)

theorem CircleFollow_at_center_witness:
  "sub_xy (Vector [5, 5]) 5 5 = Inr (0, 0)
   \<and> linalg_norm (0, 0) = 0
   \<and> arctan2 0 0 = 0
   \<and> CircleFollow (\<lambda>a. a) [[5], [5], [0]] [[1], [1]] (Vector [5, 5]) (PyFloat 2)
       = Inr [[max (1 / 10) (1 * (1 / 2))], [1 * tanh (2 * (pi / 2 - 0))]]"
  using CircleFollow_at_center [of "[[5], [5], [0]]" 5 5 0 "\<lambda>a. a" 1 1 "PyFloat 2"]
  by (simp add: flatten_def)

subsection \<open>The callback\<close>

text \<open>
  C5. The command is a function of the robot's state, its velocity range and the
  keyword arguments \<open>center\<close> and \<open>radius\<close>: two calls on robot objects with equal
  state and velocity range, and with keyword arguments that agree on these keys,
  return equal commands, whatever \<open>external_objects\<close> is in each call.
\<close>

theorem behaviour_pure:
  assumes "state ego = state ego'"
    and "get_vel_range ego = get_vel_range ego'"
    and "kwargs ''center'' = kwargs' ''center''"
    and "kwargs ''radius'' = kwargs' ''radius''"
  shows "beh_diff_circle_follow W ego external_objects kwargs
           = beh_diff_circle_follow W ego' external_objects' kwargs'"
  using assms by (simp add: beh_diff_circle_follow_def Let_def kwargs_get_def)

theorem behaviour_pure_witness:
  "beh_diff_circle_follow (\<lambda>a. a)
     \<lparr>state = [[1], [2], [0]], get_vel_range = ([[-1], [-1]], [[1], [1]])\<rparr>
     (None :: unit list option) [''center'' \<mapsto> PyList [3, 4], ''radius'' \<mapsto> PyFloat 1]
   = beh_diff_circle_follow (\<lambda>a. a)
     \<lparr>state = [[1], [2], [0]], get_vel_range = ([[-1], [-1]], [[1], [1]])\<rparr>
     (Some [(), ()]) [''center'' \<mapsto> PyList [3, 4], ''radius'' \<mapsto> PyFloat 1]"
  by (rule behaviour_pure) simp_all

text \<open>
  C6. Default arguments: a call whose keyword arguments have neither \<open>center\<close> nor
  \<open>radius\<close> returns what the call with \<open>center = [5.0, 5.0]\<close> and \<open>radius = 2.0\<close>
  returns, and \<open>external_objects = None\<close> returns what the empty list returns.
\<close>

theorem behaviour_defaults:
  assumes "kwargs ''center'' = None" and "kwargs ''radius'' = None"
  shows "beh_diff_circle_follow W ego external_objects kwargs
           = beh_diff_circle_follow W ego external_objects
               (kwargs(''center'' \<mapsto> PyList [5, 5], ''radius'' \<mapsto> PyFloat 2))
         \<and> beh_diff_circle_follow W ego (None :: 'o list option) kwargs'
           = beh_diff_circle_follow W ego (Some ([] :: 'o list)) kwargs'"
  using assms by (simp add: beh_diff_circle_follow_def Let_def kwargs_get_def)

theorem behaviour_defaults_witness:
  "beh_diff_circle_follow (\<lambda>a. a)
     \<lparr>state = [[1], [2], [0]], get_vel_range = ([[-1], [-1]], [[1], [1]])\<rparr>
     (None :: unit list option) Map.empty
   = beh_diff_circle_follow (\<lambda>a. a)
     \<lparr>state = [[1], [2], [0]], get_vel_range = ([[-1], [-1]], [[1], [1]])\<rparr>
     (None :: unit list option) [''center'' \<mapsto> PyList [5, 5], ''radius'' \<mapsto> PyFloat 2]
   \<and> beh_diff_circle_follow (\<lambda>a. a)
     \<lparr>state = [[1], [2], [0]], get_vel_range = ([[-1], [-1]], [[1], [1]])\<rparr>
     (None :: unit list option) [''center'' \<mapsto> PyList [3, 4]]
   = beh_diff_circle_follow (\<lambda>a. a)
     \<lparr>state = [[1], [2], [0]], get_vel_range = ([[-1], [-1]], [[1], [1]])\<rparr>
     (Some ([] :: unit list)) [''center'' \<mapsto> PyList [3, 4]]"
  using behaviour_defaults
    [of Map.empty "\<lambda>a. a"
        "\<lparr>state = [[1], [2], [0]], get_vel_range = ([[-1], [-1]], [[1], [1]])\<rparr>"
        "None :: unit list option" "[''center'' \<mapsto> PyList [3, 4]]"]
  by simp

end
